theory Spec2Isabelle
  imports Main "HOL-Library.Sublist"
begin

section \<open>EshWord: the documents, the tabs and the persistence handlers\<close>

text \<open>
  The program is one class, \<open>EshWord\<close>, whose methods are event handlers over a tab
  widget of text editors. The model keeps the part of the widgets the handlers read and
  write: each tab has a title and an editor, each editor has a text, the font of its
  current character format and the font last given to \<open>setFont\<close>.
  The file dialogs, the message boxes, the status bar and the file system are explicit:
  a handler takes the file name the dialog returned as an argument, and the state records
  every message box shown, every status message and every file opened.
  A string is a list of characters with code points below 256.
\<close>

subsection \<open>Exceptions\<close>

datatype exception =
    OSError
  | JSONDecodeError
  | ValueError string
  | TypeError
  | KeyError
  | AttributeError
  | OverflowError

subsection \<open>Fonts and editors\<close>

text \<open>
  \<open>QFont\<close>: the five attributes the program reads. \<open>QFont(family, size)\<close> builds a
  font that is neither bold, italic nor underlined. A font sized in pixels has the
  point size \<open>-1\<close>.
\<close>

record qfont =
  family :: string
  pointSize :: int
  bold :: bool
  italic :: bool
  underline :: bool

definition QFont :: "string \<Rightarrow> int \<Rightarrow> qfont" where
  "QFont fam sz =
     \<lparr>family = fam, pointSize = sz, bold = False, italic = False, underline = False\<rparr>"

text \<open>
  \<open>font.setPointSize(n)\<close>: the argument is a C \<open>int\<close>, so the call raises
  \<open>OverflowError\<close> outside its range; Qt ignores a size that is not positive.
\<close>

definition setPointSize :: "int \<Rightarrow> qfont \<Rightarrow> exception + qfont" where
  "setPointSize n f =
     (if n < - 2147483648 \<or> 2147483647 < n then Inl OverflowError
      else if 0 < n then Inr (f\<lparr>pointSize := n\<rparr>)
      else Inr f)"

text \<open>
  \<open>apply_styles\<close> gives every \<open>QTextEdit\<close>, in the dark and in the light theme alike,
  \<open>font-family: 'Segoe UI'\<close> and \<open>font-size: 14px\<close>. \<open>__init__\<close> applies the style
  sheet before it adds the first tab, so this is the font \<open>currentFont()\<close> reports for a
  new editor: the size is in pixels and the point size is \<open>-1\<close>.
\<close>

definition stylesheet_font :: qfont where
  "stylesheet_font =
     \<lparr>family = ''Segoe UI'', pointSize = - 1, bold = False, italic = False,
      underline = False\<rparr>"

text \<open>
  \<open>QTextEdit\<close>. \<open>document_text\<close> is the text given to the document.
  \<open>currentFont\<close> is the font of the current character format: \<open>currentFont()\<close>
  returns it and \<open>setCurrentFont()\<close> stores it. \<open>requestedFont\<close> is the font last
  passed to \<open>setFont()\<close>: the style sheet fixes the family and the size of the widget's
  font, the call does not change what \<open>currentFont()\<close> returns, and the program never
  reads the widget's font back.
\<close>

record qtextedit =
  document_text :: string
  currentFont :: qfont
  requestedFont :: qfont

text \<open>
  \<open>toPlainText()\<close>: the document keeps a CR LF pair and a lone CR as one line break,
  returned as a line feed, and a no-break space is returned as a space.
\<close>

definition plain_char :: "char \<Rightarrow> char" where
  "plain_char c =
     (if c = CHR 0x0D then CHR 0x0A else if c = CHR 0xA0 then CHR '' '' else c)"

fun plain_text :: "string \<Rightarrow> string" where
  "plain_text [] = []"
| "plain_text [c] = [plain_char c]"
| "plain_text (c # d # cs) =
     (if c = CHR 0x0D \<and> d = CHR 0x0A then CHR 0x0A # plain_text cs
      else plain_char c # plain_text (d # cs))"

definition toPlainText :: "qtextedit \<Rightarrow> string" where
  "toPlainText editor = plain_text (document_text editor)"

record tab =
  tabText :: string
  widget :: qtextedit

subsection \<open>Messages and files\<close>

text \<open>
  The text of a message box or of a status message: either a fixed text, or a prefix
  followed by the text of an exception (\<open>f"Failed to load file: {e}"\<close>).
\<close>

datatype message = Text string | WithExn string exception

datatype open_mode = ReadMode | WriteMode

text \<open>
  The file system: the text of each file, the paths that cannot be opened for reading or
  for writing, and the log of every \<open>open()\<close> call. A file holds the text written
  to it: the UTF-8 encoding and the newline translation of \<open>open\<close> are not modelled.
\<close>

record filesystem =
  files :: "string \<rightharpoonup> string"
  read_denied :: "string set"
  write_denied :: "string set"
  io_log :: "(string \<times> open_mode) list"

text \<open>
  \<open>open(path, "w")\<close>: fails on the empty path and on a denied one, leaving the files as
  they are; otherwise the file exists and is empty. \<open>f.write(text)\<close> then stores the text.
\<close>

definition open_write :: "string \<Rightarrow> filesystem \<Rightarrow> exception option \<times> filesystem" where
  "open_write path fsys =
     (let logged = fsys\<lparr>io_log := io_log fsys @ [(path, WriteMode)]\<rparr> in
      if path = [] \<or> path \<in> write_denied fsys then (Some OSError, logged)
      else (None, logged\<lparr>files := (files fsys)(path \<mapsto> [])\<rparr>))"

definition f_write :: "string \<Rightarrow> string \<Rightarrow> filesystem \<Rightarrow> filesystem" where
  "f_write path txt fsys = fsys\<lparr>files := (files fsys)(path \<mapsto> txt)\<rparr>"

text \<open>\<open>open(path, "r")\<close> followed by \<open>f.read()\<close>.\<close>

definition open_read :: "string \<Rightarrow> filesystem \<Rightarrow> (exception + string) \<times> filesystem" where
  "open_read path fsys =
     (let logged = fsys\<lparr>io_log := io_log fsys @ [(path, ReadMode)]\<rparr> in
      if path = [] \<or> path \<in> read_denied fsys then (Inl OSError, logged)
      else (case files fsys path of
              None \<Rightarrow> (Inl OSError, logged)
            | Some txt \<Rightarrow> (Inr txt, logged)))"

subsection \<open>The application state\<close>

text \<open>
  \<open>tabs\<close> and \<open>currentIndex\<close> are the \<open>QTabWidget\<close>; the index is \<open>-1\<close> when there is
  no tab. \<open>dialogs\<close> logs the \<open>QMessageBox.critical\<close> calls (title, text) and
  \<open>status_log\<close> the \<open>statusBar().showMessage\<close> calls (text, milliseconds).
\<close>

record app =
  tabs :: "tab list"
  currentIndex :: int
  autosave_enabled :: bool
  fs :: filesystem
  dialogs :: "(string \<times> message) list"
  status_log :: "(message \<times> int) list"

definition in_range :: "app \<Rightarrow> int \<Rightarrow> bool" where
  "in_range s i = (0 \<le> i \<and> i < int (length (tabs s)))"

text \<open>\<open>self.tabs.tabText(i)\<close>: the empty string when \<open>i\<close> is out of range.\<close>

definition tabText_at :: "app \<Rightarrow> int \<Rightarrow> string" where
  "tabText_at s i = (if in_range s i then tabText (tabs s ! nat i) else [])"

text \<open>\<open>self.tabs.setTabText(i, title)\<close>: nothing when \<open>i\<close> is out of range.\<close>

definition setTabText :: "int \<Rightarrow> string \<Rightarrow> app \<Rightarrow> app" where
  "setTabText i title s =
     (if in_range s i
      then s\<lparr>tabs := (tabs s)[nat i := (tabs s ! nat i)\<lparr>tabText := title\<rparr>]\<rparr>
      else s)"

text \<open>\<open>current_editor\<close>: \<open>self.tabs.currentWidget()\<close>, \<open>None\<close> when there is no tab.\<close>

definition current_editor :: "app \<Rightarrow> qtextedit option" where
  "current_editor s =
     (if in_range s (currentIndex s) then Some (widget (tabs s ! nat (currentIndex s)))
      else None)"

text \<open>The current editor after one of its setters ran.\<close>

definition update_current_editor :: "qtextedit \<Rightarrow> app \<Rightarrow> app" where
  "update_current_editor ed s =
     (if in_range s (currentIndex s)
      then s\<lparr>tabs := (tabs s)[nat (currentIndex s) :=
                 (tabs s ! nat (currentIndex s))\<lparr>widget := ed\<rparr>]\<rparr>
      else s)"

definition critical :: "string \<Rightarrow> message \<Rightarrow> app \<Rightarrow> app" where
  "critical title msg s = s\<lparr>dialogs := dialogs s @ [(title, msg)]\<rparr>"

definition showMessage :: "message \<Rightarrow> int \<Rightarrow> app \<Rightarrow> app" where
  "showMessage msg ms s = s\<lparr>status_log := status_log s @ [(msg, ms)]\<rparr>"

subsection \<open>Tabs\<close>

text \<open>
  \<open>add_new_tab(title, content)\<close>: a new editor, \<open>setPlainText(content)\<close> and
  \<open>setFont(QFont("Segoe UI", 10))\<close>, appended as the last tab and made current.
\<close>

definition add_new_tab :: "string \<Rightarrow> string \<Rightarrow> app \<Rightarrow> app" where
  "add_new_tab title content s =
     (let editor = \<lparr>document_text = content, currentFont = stylesheet_font,
                     requestedFont = QFont ''Segoe UI'' 10\<rparr>;
          index = int (length (tabs s))
      in s\<lparr>tabs := tabs s @ [\<lparr>tabText = title, widget = editor\<rparr>],
            currentIndex := index\<rparr>)"

text \<open>
  \<open>self.tabs.removeTab(index)\<close>: nothing when the index is out of range. Otherwise the
  tab is removed and the current index follows Qt's default: a current tab to the right
  of the removed one moves left with it, a removed current tab gives way to its right
  neighbour, or to its left one when it was the last; no tab left gives \<open>-1\<close>.
\<close>

definition removeTab :: "int \<Rightarrow> app \<Rightarrow> app" where
  "removeTab index s =
     (if in_range s index then
        (let n = int (length (tabs s));
             cur = currentIndex s;
             cur' = (if n = 1 then - 1
                     else if index < cur then cur - 1
                     else if index = cur \<and> index = n - 1 then cur - 1
                     else cur)
         in s\<lparr>tabs := take (nat index) (tabs s) @ drop (Suc (nat index)) (tabs s),
               currentIndex := cur'\<rparr>)
      else s)"

definition close_tab :: "int \<Rightarrow> app \<Rightarrow> app" where
  "close_tab index s =
     (let s1 = removeTab index s in
      if length (tabs s1) = 0 then add_new_tab ''Untitled'' [] s1 else s1)"

definition new_document :: "app \<Rightarrow> app" where
  "new_document s = add_new_tab ''Untitled'' [] s"

subsection \<open>Bold, italic, underline\<close>

text \<open>
  The three toggles read \<open>editor.currentFont()\<close> and store the changed font with
  \<open>editor.setCurrentFont(font)\<close>; without an editor they do nothing.
\<close>

definition make_bold :: "app \<Rightarrow> app" where
  "make_bold s =
     (case current_editor s of
        None \<Rightarrow> s
      | Some editor \<Rightarrow>
          (let font = currentFont editor
           in update_current_editor
                (editor\<lparr>currentFont := font\<lparr>bold := \<not> bold font\<rparr>\<rparr>) s))"

definition make_italic :: "app \<Rightarrow> app" where
  "make_italic s =
     (case current_editor s of
        None \<Rightarrow> s
      | Some editor \<Rightarrow>
          (let font = currentFont editor
           in update_current_editor
                (editor\<lparr>currentFont := font\<lparr>italic := \<not> italic font\<rparr>\<rparr>) s))"

definition make_underline :: "app \<Rightarrow> app" where
  "make_underline s =
     (case current_editor s of
        None \<Rightarrow> s
      | Some editor \<Rightarrow>
          (let font = currentFont editor
           in update_current_editor
                (editor\<lparr>currentFont := font\<lparr>underline := \<not> underline font\<rparr>\<rparr>) s))"

subsection \<open>Font size\<close>

text \<open>
  Both handlers read \<open>editor.currentFont()\<close> and hand the stepped font to
  \<open>editor.setFont(font)\<close>, not to \<open>setCurrentFont\<close>. They run in a \<open>try\<close> whose
  \<open>except\<close> shows a message box: for the \<open>AttributeError\<close> of \<open>editor.currentFont()\<close>
  when there is no editor, and for the \<open>OverflowError\<close> of \<open>setPointSize\<close>.
\<close>

definition increase_font_size :: "app \<Rightarrow> app" where
  "increase_font_size s =
     (case current_editor s of
        None \<Rightarrow>
          critical ''Font Error'' (WithExn ''Failed to increase font size: '' AttributeError) s
      | Some editor \<Rightarrow>
          (let font = currentFont editor;
               size0 = pointSize font;
               size1 = (if size0 \<le> 0 then 10 else size0)
           in case setPointSize (size1 + 1) font of
                Inl e \<Rightarrow>
                  critical ''Font Error'' (WithExn ''Failed to increase font size: '' e) s
              | Inr font1 \<Rightarrow>
                  update_current_editor (editor\<lparr>requestedFont := font1\<rparr>) s))"

definition decrease_font_size :: "app \<Rightarrow> app" where
  "decrease_font_size s =
     (case current_editor s of
        None \<Rightarrow>
          critical ''Font Error'' (WithExn ''Failed to decrease font size: '' AttributeError) s
      | Some editor \<Rightarrow>
          (let font = currentFont editor;
               size0 = pointSize font;
               size1 = (if size0 \<le> 0 then 10 else size0)
           in if size1 > 1
              then (case setPointSize (size1 - 1) font of
                      Inl e \<Rightarrow>
                        critical ''Font Error''
                          (WithExn ''Failed to decrease font size: '' e) s
                    | Inr font1 \<Rightarrow>
                        update_current_editor (editor\<lparr>requestedFont := font1\<rparr>) s)
              else s))"

subsection \<open>Python values and the JSON library\<close>

text \<open>
  The values \<open>json.load\<close> returns. An object is the list of the dictionary's entries,
  in order, each key once. A float is kept as its literal.
\<close>

datatype json =
    JNull
  | JBool bool
  | JInt int
  | JFloat string
  | JStr string
  | JArr "json list"
  | JObj "(string \<times> json) list"

text \<open>
  The \<open>json\<close> module is a library of the program, not part of it: the handlers take its
  two functions as a parameter. \<open>dumps\<close> is \<open>json.dump(data, f, indent=4)\<close> as the text
  written, \<open>loads\<close> is \<open>json.load(f)\<close> on the text read, \<open>None\<close> for the
  \<open>JSONDecodeError\<close>.
\<close>

record json_lib =
  dumps :: "json \<Rightarrow> string"
  loads :: "string \<Rightarrow> json option"

text \<open>\<open>file_name.endswith(suffix)\<close>.\<close>

definition endswith :: "string \<Rightarrow> string \<Rightarrow> bool" where
  "endswith str suf = suffix suf str"

text \<open>
  \<open>"text" in data\<close>: a key of a dictionary, an element of a list, a substring of a
  string; any other value is not iterable.
\<close>

fun contains_text :: "json \<Rightarrow> exception + bool" where
  "contains_text (JObj kvs) = Inr (map_of kvs ''text'' \<noteq> None)"
| "contains_text (JArr xs) = Inr (JStr ''text'' \<in> set xs)"
| "contains_text (JStr str) = Inr (sublist ''text'' str)"
| "contains_text _ = Inl TypeError"

text \<open>\<open>data["text"]\<close>: only a dictionary can be indexed by a string.\<close>

fun subscript_text :: "json \<Rightarrow> exception + json" where
  "subscript_text (JObj kvs) =
     (case map_of kvs ''text'' of None \<Rightarrow> Inl KeyError | Some v \<Rightarrow> Inr v)"
| "subscript_text _ = Inl TypeError"

text \<open>
  The argument of \<open>editor.setPlainText(content)\<close>, of type \<open>Optional[str]\<close> in PyQt6:
  a string, or \<open>None\<close> for the empty text; any other value is a \<open>TypeError\<close> of the
  call, raised before the tab is added.
\<close>

fun as_qstring :: "json \<Rightarrow> exception + string" where
  "as_qstring (JStr str) = Inr str"
| "as_qstring JNull = Inr []"
| "as_qstring _ = Inl TypeError"

subsection \<open>Saving\<close>

text \<open>The dictionary \<open>write_to_file\<close> builds from the editor.\<close>

definition esh_data :: "qtextedit \<Rightarrow> json" where
  "esh_data editor =
     JObj [(''text'', JStr (toPlainText editor)),
           (''font'', JStr (family (currentFont editor))),
           (''size'', JInt (pointSize (currentFont editor))),
           (''bold'', JBool (bold (currentFont editor))),
           (''italic'', JBool (italic (currentFont editor))),
           (''underline'', JBool (underline (currentFont editor)))]"

text \<open>
  The plain write, as it stands in \<open>write_to_file\<close>, \<open>save_file_as\<close> and \<open>autosave\<close>:
  \<open>with open(file_name, "w") as f: f.write(editor.toPlainText())\<close>. The file is opened
  before the editor is asked for its text.
\<close>

definition write_plain :: "string \<Rightarrow> app \<Rightarrow> exception option \<times> app" where
  "write_plain file_name s =
     (case open_write file_name (fs s) of
        (Some e, fs1) \<Rightarrow> (Some e, s\<lparr>fs := fs1\<rparr>)
      | (None, fs1) \<Rightarrow>
          (case current_editor s of
             None \<Rightarrow> (Some AttributeError, s\<lparr>fs := fs1\<rparr>)
           | Some editor \<Rightarrow>
               (None, s\<lparr>fs := f_write file_name (toPlainText editor) fs1\<rparr>)))"

text \<open>
  \<open>write_to_file(file_name, is_esh)\<close>; its \<open>except\<close> raises the exception again, so
  the first component is the exception that leaves the method. The structured branch
  builds the dictionary before it opens the file.
\<close>

definition write_to_file :: "json_lib \<Rightarrow> string \<Rightarrow> bool \<Rightarrow> app \<Rightarrow> exception option \<times> app" where
  "write_to_file J file_name is_esh s =
     (if is_esh then
        (case current_editor s of
           None \<Rightarrow> (Some AttributeError, s)
         | Some editor \<Rightarrow>
             (case open_write file_name (fs s) of
                (Some e, fs1) \<Rightarrow> (Some e, s\<lparr>fs := fs1\<rparr>)
              | (None, fs1) \<Rightarrow>
                  (None, s\<lparr>fs := f_write file_name (dumps J (esh_data editor)) fs1\<rparr>)))
      else write_plain file_name s)"

text \<open>
  \<open>save_file_as\<close>, given the name the save dialog returned (empty when cancelled).
\<close>

definition save_file_as :: "json_lib \<Rightarrow> string \<Rightarrow> app \<Rightarrow> app" where
  "save_file_as J file_name s =
     (if file_name \<noteq> [] then
        (case (if endswith file_name ''.esh'' then write_to_file J file_name True s
               else write_plain file_name s) of
           (None, s1) \<Rightarrow>
             showMessage (Text (''File saved: '' @ file_name)) 3000
               (setTabText (currentIndex s1) file_name s1)
         | (Some e, s1) \<Rightarrow>
             critical ''Save Error'' (WithExn ''Failed to save file: '' e) s1)
      else s)"

text \<open>
  \<open>save_file\<close>: the call of \<open>write_to_file(title)\<close> is outside any \<open>try\<close>, so its
  exception leaves the handler.
\<close>

definition save_file :: "json_lib \<Rightarrow> string \<Rightarrow> app \<Rightarrow> exception option \<times> app" where
  "save_file J dialog_name s =
     (let title = tabText_at s (currentIndex s) in
      if title = ''Untitled'' then (None, save_file_as J dialog_name s)
      else write_to_file J title True s)"

subsection \<open>Loading\<close>

text \<open>The \<open>try\<close> body of \<open>load_file\<close> up to the value of \<open>content\<close>.\<close>

definition read_content :: "json_lib \<Rightarrow> string \<Rightarrow> filesystem \<Rightarrow> (exception + json) \<times> filesystem" where
  "read_content J file_name fsys =
     (if endswith file_name ''.esh'' then
        (case open_read file_name fsys of
           (Inl e, fs1) \<Rightarrow> (Inl e, fs1)
         | (Inr txt, fs1) \<Rightarrow>
             (case loads J txt of
                None \<Rightarrow> (Inl JSONDecodeError, fs1)
              | Some data \<Rightarrow>
                  (case contains_text data of
                     Inl e \<Rightarrow> (Inl e, fs1)
                   | Inr False \<Rightarrow>
                       (Inl (ValueError ''Invalid file format: missing 'text' key.''), fs1)
                   | Inr True \<Rightarrow> (subscript_text data, fs1))))
      else
        (case open_read file_name fsys of
           (Inl e, fs1) \<Rightarrow> (Inl e, fs1)
         | (Inr txt, fs1) \<Rightarrow> (Inr (JStr txt), fs1)))"

text \<open>
  \<open>load_file\<close>, given the name the open dialog returned (empty when cancelled).
\<close>

definition load_file :: "json_lib \<Rightarrow> string \<Rightarrow> app \<Rightarrow> app" where
  "load_file J file_name s =
     (if file_name \<noteq> [] then
        (case read_content J file_name (fs s) of
           (Inl e, fs1) \<Rightarrow>
             critical ''Load Error'' (WithExn ''Failed to load file: '' e) (s\<lparr>fs := fs1\<rparr>)
         | (Inr content, fs1) \<Rightarrow>
             (case as_qstring content of
                Inl e \<Rightarrow>
                  critical ''Load Error'' (WithExn ''Failed to load file: '' e) (s\<lparr>fs := fs1\<rparr>)
              | Inr txt \<Rightarrow>
                  showMessage (Text (''File loaded: '' @ file_name)) 3000
                    (add_new_tab file_name txt (s\<lparr>fs := fs1\<rparr>))))
      else s)"

subsection \<open>Autosave\<close>

text \<open>
  \<open>autosave\<close>, the slot of the 60-second timer. The first component is the exception
  that leaves the slot.
\<close>

definition autosave :: "json_lib \<Rightarrow> app \<Rightarrow> exception option \<times> app" where
  "autosave J s =
     (if autosave_enabled s then
        (let title = tabText_at s (currentIndex s) in
         if title \<noteq> ''Untitled'' then
           (case (if endswith title ''.esh'' then write_to_file J title True s
                  else write_plain title s) of
              (None, s1) \<Rightarrow> (None, showMessage (Text (''Autosaved: '' @ title)) 2000 s1)
            | (Some e, s1) \<Rightarrow>
                (None, showMessage (WithExn ''Autosave failed: '' e) 2000 s1))
         else (None, s))
      else (None, s))"

subsection \<open>An instance of the JSON library\<close>

text \<open>
  An executable \<open>json_lib\<close>, to run the handlers on concrete files. The printer writes
  what \<open>json.dump(data, f, indent=4)\<close> writes: one entry per line, four spaces per
  level, every character outside printable ASCII escaped. The parser reads the JSON
  grammar as \<open>json.load\<close> does. Characters are bytes here, so an escape of four hex
  digits above \<open>00ff\<close> is not read.
\<close>

definition hex_digit :: "nat \<Rightarrow> char" where
  "hex_digit d = (if d < 10 then char_of (48 + d) else char_of (87 + d))"

definition escape_char :: "char \<Rightarrow> string" where
  "escape_char c =
     (let n = (of_char c :: nat) in
      if c = CHR 0x22 then [CHR 0x5C, CHR 0x22]
      else if c = CHR 0x5C then [CHR 0x5C, CHR 0x5C]
      else if c = CHR 0x0A then [CHR 0x5C, CHR ''n'']
      else if c = CHR 0x0D then [CHR 0x5C, CHR ''r'']
      else if c = CHR 0x09 then [CHR 0x5C, CHR ''t'']
      else if c = CHR 0x08 then [CHR 0x5C, CHR ''b'']
      else if c = CHR 0x0C then [CHR 0x5C, CHR ''f'']
      else if n < 32 \<or> 126 < n
        then [CHR 0x5C, CHR ''u'', CHR ''0'', CHR ''0'',
              hex_digit (n div 16), hex_digit (n mod 16)]
      else [c])"

definition dump_string :: "string \<Rightarrow> string" where
  "dump_string str = [CHR 0x22] @ concat (map escape_char str) @ [CHR 0x22]"

function digits :: "nat \<Rightarrow> string" where
  "digits n =
     (if n < 10 then [char_of (48 + n)]
      else digits (n div 10) @ [char_of (48 + n mod 10)])"
  by pat_completeness auto
termination
  by (relation "measure id") auto

definition dump_int :: "int \<Rightarrow> string" where
  "dump_int i = (if i < 0 then CHR ''-'' # digits (nat (- i)) else digits (nat i))"

definition indent_of :: "nat \<Rightarrow> string" where
  "indent_of lvl = CHR 0x0A # replicate (4 * lvl) CHR '' ''"

fun join :: "string \<Rightarrow> string list \<Rightarrow> string" where
  "join sep [] = []"
| "join sep [x] = x"
| "join sep (x # xs) = x @ sep @ join sep xs"

fun dump :: "nat \<Rightarrow> json \<Rightarrow> string" where
  "dump lvl JNull = ''null''"
| "dump lvl (JBool b) = (if b then ''true'' else ''false'')"
| "dump lvl (JInt i) = dump_int i"
| "dump lvl (JFloat lit) = lit"
| "dump lvl (JStr str) = dump_string str"
| "dump lvl (JArr xs) =
     (if xs = [] then ''[]''
      else ''['' @ indent_of (Suc lvl)
           @ join ('','' @ indent_of (Suc lvl)) (map (dump (Suc lvl)) xs)
           @ indent_of lvl @ '']'')"
| "dump lvl (JObj kvs) =
     (if kvs = [] then ''{}''
      else ''{'' @ indent_of (Suc lvl)
           @ join ('','' @ indent_of (Suc lvl))
               (map (\<lambda>kv. dump_string (fst kv) @ '': '' @ dump (Suc lvl) (snd kv)) kvs)
           @ indent_of lvl @ ''}'')"

definition is_ws :: "char \<Rightarrow> bool" where
  "is_ws c = (c = CHR '' '' \<or> c = CHR 0x0A \<or> c = CHR 0x0D \<or> c = CHR 0x09)"

definition skip_ws :: "string \<Rightarrow> string" where
  "skip_ws cs = dropWhile is_ws cs"

definition hex_val :: "char \<Rightarrow> nat option" where
  "hex_val c =
     (let n = (of_char c :: nat) in
      if 48 \<le> n \<and> n \<le> 57 then Some (n - 48)
      else if 97 \<le> n \<and> n \<le> 102 then Some (n - 87)
      else if 65 \<le> n \<and> n \<le> 70 then Some (n - 55)
      else None)"

definition hex4 :: "char \<Rightarrow> char \<Rightarrow> char \<Rightarrow> char \<Rightarrow> nat option" where
  "hex4 a b c d =
     (case (hex_val a, hex_val b, hex_val c, hex_val d) of
        (Some w, Some x, Some y, Some z) \<Rightarrow> Some (((w * 16 + x) * 16 + y) * 16 + z)
      | _ \<Rightarrow> None)"

definition unescape :: "char \<Rightarrow> char option" where
  "unescape e =
     (if e = CHR 0x22 then Some (CHR 0x22)
      else if e = CHR 0x5C then Some (CHR 0x5C)
      else if e = CHR ''/'' then Some (CHR ''/'')
      else if e = CHR ''n'' then Some (CHR 0x0A)
      else if e = CHR ''r'' then Some (CHR 0x0D)
      else if e = CHR ''t'' then Some (CHR 0x09)
      else if e = CHR ''b'' then Some (CHR 0x08)
      else if e = CHR ''f'' then Some (CHR 0x0C)
      else None)"

text \<open>The characters of a string after its opening quote, up to the closing one.\<close>

fun parse_chars :: "string \<Rightarrow> string \<Rightarrow> (string \<times> string) option" where
  "parse_chars acc [] = None"
| "parse_chars acc [c] = (if c = CHR 0x22 then Some (rev acc, []) else None)"
| "parse_chars acc (c # e # cs) =
     (if c = CHR 0x22 then Some (rev acc, e # cs)
      else if c = CHR 0x5C then
        (if e = CHR ''u'' then
           (case cs of
              h1 # h2 # h3 # h4 # cs2 \<Rightarrow>
                (case hex4 h1 h2 h3 h4 of
                   Some n \<Rightarrow> if n < 256 then parse_chars (char_of n # acc) cs2 else None
                 | None \<Rightarrow> None)
            | _ \<Rightarrow> None)
         else (case unescape e of
                 Some d \<Rightarrow> parse_chars (d # acc) cs
               | None \<Rightarrow> None))
      else if (of_char c :: nat) < 32 then None
      else parse_chars (c # acc) (e # cs))"

definition is_digit :: "char \<Rightarrow> bool" where
  "is_digit c = (48 \<le> (of_char c :: nat) \<and> (of_char c :: nat) \<le> 57)"

text \<open>
  A number: \<open>-?(0|[1-9][0-9]*)\<close>, then a fraction \<open>.[0-9]+\<close> and an exponent
  \<open>[eE][-+]?[0-9]+\<close> where they are there; an integer when neither is.
\<close>

definition parse_number :: "string \<Rightarrow> (json \<times> string) option" where
  "parse_number cs =
     (let sign = (if prefix ''-'' cs then ''-'' else []);
          cs1 = drop (length sign) cs;
          ds = takeWhile is_digit cs1;
          ipart = (if prefix ''0'' ds then ''0'' else ds);
          cs2 = drop (length ipart) cs1;
          fd = takeWhile is_digit (drop 1 cs2);
          frac = (if prefix ''.'' cs2 \<and> fd \<noteq> [] then CHR ''.'' # fd else []);
          cs3 = drop (length frac) cs2;
          es = (if prefix ''+'' (drop 1 cs3) then ''+''
                else if prefix ''-'' (drop 1 cs3) then ''-'' else []);
          ed = takeWhile is_digit (drop (Suc (length es)) cs3);
          expo = (if (prefix ''e'' cs3 \<or> prefix ''E'' cs3) \<and> ed \<noteq> []
                  then take 1 cs3 @ es @ ed else []);
          cs4 = drop (length expo) cs3
      in if ipart = [] then None
         else if frac = [] \<and> expo = [] then
           (let n = foldl (\<lambda>n d. 10 * n + (of_char d - 48)) (0 :: nat) ipart
            in Some (JInt (if sign = [] then int n else - int n), cs2))
         else Some (JFloat (sign @ ipart @ frac @ expo), cs4))"

definition parse_literal :: "string \<Rightarrow> (json \<times> string) option" where
  "parse_literal cs =
     (if prefix ''true'' cs then Some (JBool True, drop 4 cs)
      else if prefix ''false'' cs then Some (JBool False, drop 5 cs)
      else if prefix ''null'' cs then Some (JNull, drop 4 cs)
      else if prefix ''NaN'' cs then Some (JFloat ''NaN'', drop 3 cs)
      else if prefix ''Infinity'' cs then Some (JFloat ''Infinity'', drop 8 cs)
      else if prefix ''-Infinity'' cs then Some (JFloat ''-Infinity'', drop 9 cs)
      else parse_number cs)"

text \<open>\<open>d[k] = v\<close>: a key already there keeps its place and takes the new value.\<close>

fun dict_set :: "string \<Rightarrow> json \<Rightarrow> (string \<times> json) list \<Rightarrow> (string \<times> json) list" where
  "dict_set k v [] = [(k, v)]"
| "dict_set k v ((k', v') # kvs) =
     (if k = k' then (k, v) # kvs else (k', v') # dict_set k v kvs)"

text \<open>
  The parser, with the number of nested calls bounded by its first argument; \<open>parse\<close>
  gives it more than the text can need.
\<close>

fun parse_value :: "nat \<Rightarrow> string \<Rightarrow> (json \<times> string) option"
  and parse_members :: "nat \<Rightarrow> (string \<times> json) list \<Rightarrow> string \<Rightarrow> (json \<times> string) option"
  and parse_elements :: "nat \<Rightarrow> json list \<Rightarrow> string \<Rightarrow> (json \<times> string) option"
where
  "parse_value 0 cs = None"
| "parse_value (Suc fuel) cs =
     (case cs of
        [] \<Rightarrow> None
      | c # cs1 \<Rightarrow>
          if c = CHR 0x22 then
            map_option (\<lambda>(str, rest). (JStr str, rest)) (parse_chars [] cs1)
          else if c = CHR ''{'' then
            (case skip_ws cs1 of
               [] \<Rightarrow> None
             | d # cs2 \<Rightarrow>
                 if d = CHR ''}'' then Some (JObj [], cs2)
                 else parse_members fuel [] (d # cs2))
          else if c = CHR ''['' then
            (case skip_ws cs1 of
               [] \<Rightarrow> None
             | d # cs2 \<Rightarrow>
                 if d = CHR '']'' then Some (JArr [], cs2)
                 else parse_elements fuel [] (d # cs2))
          else parse_literal cs)"
| "parse_members 0 acc cs = None"
| "parse_members (Suc fuel) acc cs =
     (case cs of
        [] \<Rightarrow> None
      | c # cs1 \<Rightarrow>
          if c \<noteq> CHR 0x22 then None
          else
            (case parse_chars [] cs1 of
               None \<Rightarrow> None
             | Some (k, cs2) \<Rightarrow>
                 (case skip_ws cs2 of
                    [] \<Rightarrow> None
                  | d # cs3 \<Rightarrow>
                      if d \<noteq> CHR '':'' then None
                      else
                        (case parse_value fuel (skip_ws cs3) of
                           None \<Rightarrow> None
                         | Some (v, cs4) \<Rightarrow>
                             (case skip_ws cs4 of
                                [] \<Rightarrow> None
                              | e # cs5 \<Rightarrow>
                                  if e = CHR ''}'' then Some (JObj (dict_set k v acc), cs5)
                                  else if e = CHR '','' then
                                    parse_members fuel (dict_set k v acc) (skip_ws cs5)
                                  else None)))))"
| "parse_elements 0 acc cs = None"
| "parse_elements (Suc fuel) acc cs =
     (case parse_value fuel cs of
        None \<Rightarrow> None
      | Some (v, cs1) \<Rightarrow>
          (case skip_ws cs1 of
             [] \<Rightarrow> None
           | e # cs2 \<Rightarrow>
               if e = CHR '']'' then Some (JArr (acc @ [v]), cs2)
               else if e = CHR '','' then parse_elements fuel (acc @ [v]) (skip_ws cs2)
               else None))"

definition parse :: "string \<Rightarrow> json option" where
  "parse txt =
     (case parse_value (Suc (length txt)) (skip_ws txt) of
        None \<Rightarrow> None
      | Some (v, rest) \<Rightarrow> if skip_ws rest = [] then Some v else None)"

definition py_json :: json_lib where
  "py_json = \<lparr>dumps = dump 0, loads = parse\<rparr>"

subsection \<open>Example documents\<close>

text \<open>
  The document of the specification's scenario, \<open>Hello\<close> in bold Mono 12; a disk with
  three structured files, one with the \<open>text\<close> key only, one without it and one whose
  text has a CR LF pair and a no-break space, and with two paths that cannot be written;
  a window with one tab; and the window as \<open>__init__\<close> leaves it, autosave on and one
  empty \<open>Untitled\<close> tab.
\<close>

definition hello_editor :: qtextedit where
  "hello_editor =
     \<lparr>document_text = ''Hello'',
      currentFont = \<lparr>family = ''Mono'', pointSize = 12, bold = True, italic = False,
                     underline = False\<rparr>,
      requestedFont = QFont ''Segoe UI'' 10\<rparr>"

definition text_only :: string where
  "text_only =
     ''{'' @ [CHR 0x22] @ ''text'' @ [CHR 0x22] @ '': '' @ [CHR 0x22] @ ''hi'' @ [CHR 0x22]
     @ ''}''"

definition no_text :: string where
  "no_text =
     ''{'' @ [CHR 0x22] @ ''font'' @ [CHR 0x22] @ '': '' @ [CHR 0x22] @ ''Mono'' @ [CHR 0x22]
     @ '', '' @ [CHR 0x22] @ ''size'' @ [CHR 0x22] @ '': 12}''"

definition crlf_text :: string where
  "crlf_text =
     ''{'' @ [CHR 0x22] @ ''text'' @ [CHR 0x22] @ '': '' @ [CHR 0x22]
     @ ''a'' @ [CHR 0x5C] @ ''r'' @ [CHR 0x5C] @ ''nb'' @ [CHR 0x5C] @ ''u00a0c''
     @ [CHR 0x22] @ ''}''"

definition disk :: filesystem where
  "disk =
     \<lparr>files = [''bare.esh'' \<mapsto> text_only, ''notext.esh'' \<mapsto> no_text,
               ''crlf.esh'' \<mapsto> crlf_text],
      read_denied = {},
      write_denied = {''/readonly/note.txt'', ''/readonly/note.esh''},
      io_log = []\<rparr>"

definition one_doc :: "string \<Rightarrow> qtextedit \<Rightarrow> app" where
  "one_doc title editor =
     \<lparr>tabs = [\<lparr>tabText = title, widget = editor\<rparr>], currentIndex = 0,
      autosave_enabled = True, fs = disk, dialogs = [], status_log = []\<rparr>"

definition initial_window :: app where
  "initial_window =
     add_new_tab ''Untitled'' []
       \<lparr>tabs = [], currentIndex = - 1, autosave_enabled = True, fs = disk,
        dialogs = [], status_log = []\<rparr>"

section \<open>Properties\<close>

subsection \<open>What each step changes\<close>

lemma endswith_nonempty: "endswith file_name ''.esh'' \<Longrightarrow> file_name \<noteq> []"
  by (auto simp: endswith_def)

lemma current_editor_fs_update [simp]: "current_editor (s\<lparr>fs := f\<rparr>) = current_editor s"
  by (simp add: current_editor_def in_range_def)

lemma current_editor_add_new_tab:
  "current_editor (add_new_tab title content s) =
     Some \<lparr>document_text = content, currentFont = stylesheet_font,
           requestedFont = QFont ''Segoe UI'' 10\<rparr>"
  by (simp add: current_editor_def add_new_tab_def in_range_def Let_def)

lemma showMessage_simps [simp]:
  "tabs (showMessage m n s) = tabs s"
  "currentIndex (showMessage m n s) = currentIndex s"
  "dialogs (showMessage m n s) = dialogs s"
  "fs (showMessage m n s) = fs s"
  "current_editor (showMessage m n s) = current_editor s"
  by (simp_all add: showMessage_def current_editor_def in_range_def)

lemma critical_simps [simp]:
  "tabs (critical t m s) = tabs s"
  "currentIndex (critical t m s) = currentIndex s"
  "dialogs (critical t m s) = dialogs s @ [(t, m)]"
  "fs (critical t m s) = fs s"
  "status_log (critical t m s) = status_log s"
  by (simp_all add: critical_def)

lemma add_new_tab_simps [simp]:
  "tabs (add_new_tab title content s) =
     tabs s @ [\<lparr>tabText = title,
                widget = \<lparr>document_text = content, currentFont = stylesheet_font,
                          requestedFont = QFont ''Segoe UI'' 10\<rparr>\<rparr>]"
  "currentIndex (add_new_tab title content s) = int (length (tabs s))"
  "dialogs (add_new_tab title content s) = dialogs s"
  "fs (add_new_tab title content s) = fs s"
  by (simp_all add: add_new_tab_def Let_def)

lemma setTabText_keeps [simp]:
  "dialogs (setTabText i title s) = dialogs s"
  "currentIndex (setTabText i title s) = currentIndex s"
  "fs (setTabText i title s) = fs s"
  by (simp_all add: setTabText_def)

lemma write_plain_keeps:
  "tabs (snd (write_plain file_name s)) = tabs s"
  "currentIndex (snd (write_plain file_name s)) = currentIndex s"
  "dialogs (snd (write_plain file_name s)) = dialogs s"
  "status_log (snd (write_plain file_name s)) = status_log s"
  by (simp_all add: write_plain_def split: prod.splits option.splits)

lemma write_to_file_keeps:
  "tabs (snd (write_to_file J file_name is_esh s)) = tabs s"
  "currentIndex (snd (write_to_file J file_name is_esh s)) = currentIndex s"
  "dialogs (snd (write_to_file J file_name is_esh s)) = dialogs s"
  "status_log (snd (write_to_file J file_name is_esh s)) = status_log s"
  by (simp_all add: write_to_file_def write_plain_keeps split: prod.splits option.splits)

subsection \<open>Files written and read back\<close>

lemma open_write_ok:
  "path \<noteq> [] \<Longrightarrow> path \<notin> write_denied fsys \<Longrightarrow>
   open_write path fsys =
     (None, fsys\<lparr>io_log := io_log fsys @ [(path, WriteMode)],
                 files := (files fsys)(path \<mapsto> [])\<rparr>)"
  by (simp add: open_write_def Let_def)

lemma open_read_file:
  assumes "path \<noteq> []" "path \<notin> read_denied fsys" "files fsys path = Some txt"
  shows "open_read path fsys = (Inr txt, fsys\<lparr>io_log := io_log fsys @ [(path, ReadMode)]\<rparr>)"
  using assms by (simp add: open_read_def Let_def)

lemma open_read_written:
  assumes "path \<noteq> []" "path \<notin> read_denied fsys"
  shows "open_read path (f_write path txt (snd (open_write path fsys))) =
     (Inr txt, (f_write path txt (snd (open_write path fsys)))
                 \<lparr>io_log := io_log (snd (open_write path fsys)) @ [(path, ReadMode)]\<rparr>)"
  using assms by (simp add: open_read_def f_write_def open_write_def Let_def)

lemma write_to_file_esh_ok:
  assumes "current_editor s = Some ed" "file_name \<noteq> []" "file_name \<notin> write_denied (fs s)"
  shows "write_to_file J file_name True s =
     (None, s\<lparr>fs := f_write file_name (dumps J (esh_data ed))
                       (snd (open_write file_name (fs s)))\<rparr>)"
  using assms by (simp add: write_to_file_def open_write_ok)

lemma write_plain_ok:
  assumes "current_editor s = Some ed" "file_name \<noteq> []" "file_name \<notin> write_denied (fs s)"
  shows "write_plain file_name s =
     (None, s\<lparr>fs := f_write file_name (toPlainText ed)
                       (snd (open_write file_name (fs s)))\<rparr>)"
  using assms by (simp add: write_plain_def open_write_ok)

lemma read_content_esh:
  assumes "endswith file_name ''.esh''" "open_read file_name fsys = (Inr txt, fs1)"
    "loads J txt = Some (JObj kvs)"
  shows "read_content J file_name fsys =
     (case map_of kvs ''text'' of
        None \<Rightarrow> (Inl (ValueError ''Invalid file format: missing 'text' key.''), fs1)
      | Some v \<Rightarrow> (Inr v, fs1))"
  using assms by (simp add: read_content_def split: option.splits)

lemma read_content_plain:
  assumes "\<not> endswith file_name ''.esh''" "open_read file_name fsys = (Inr txt, fs1)"
  shows "read_content J file_name fsys = (Inr (JStr txt), fs1)"
  using assms by (simp add: read_content_def)

lemma load_file_ok:
  assumes "file_name \<noteq> []" "read_content J file_name (fs s) = (Inr (JStr txt), fs1)"
  shows "load_file J file_name s =
           showMessage (Text (''File loaded: '' @ file_name)) 3000
             (add_new_tab file_name txt (s\<lparr>fs := fs1\<rparr>))"
  using assms by (simp add: load_file_def)

lemma load_missing_text:
  assumes esh: "endswith file_name ''.esh''"
    and r: "file_name \<notin> read_denied (fs s)"
    and f: "files (fs s) file_name = Some txt"
    and j: "loads J txt = Some (JObj kvs)"
    and k: "map_of kvs ''text'' = None"
  shows "load_file J file_name s =
           critical ''Load Error''
             (WithExn ''Failed to load file: ''
                (ValueError ''Invalid file format: missing 'text' key.''))
             (s\<lparr>fs := (fs s)\<lparr>io_log := io_log (fs s) @ [(file_name, ReadMode)]\<rparr>\<rparr>)"
proof -
  have ne: "file_name \<noteq> []" using esh by (rule endswith_nonempty)
  have rd: "open_read file_name (fs s) =
      (Inr txt, (fs s)\<lparr>io_log := io_log (fs s) @ [(file_name, ReadMode)]\<rparr>)"
    using ne r f by (rule open_read_file)
  show ?thesis
    using read_content_esh [OF esh rd j] k ne by (simp add: load_file_def)
qed

lemma load_with_text:
  assumes esh: "endswith file_name ''.esh''"
    and r: "file_name \<notin> read_denied (fs s)"
    and f: "files (fs s) file_name = Some txt"
    and j: "loads J txt = Some (JObj kvs)"
    and k: "map_of kvs ''text'' = Some (JStr content)"
  shows "load_file J file_name s =
           showMessage (Text (''File loaded: '' @ file_name)) 3000
             (add_new_tab file_name content
                (s\<lparr>fs := (fs s)\<lparr>io_log := io_log (fs s) @ [(file_name, ReadMode)]\<rparr>\<rparr>))"
proof -
  have ne: "file_name \<noteq> []" using esh by (rule endswith_nonempty)
  have rd: "open_read file_name (fs s) =
      (Inr txt, (fs s)\<lparr>io_log := io_log (fs s) @ [(file_name, ReadMode)]\<rparr>)"
    using ne r f by (rule open_read_file)
  show ?thesis
    using read_content_esh [OF esh rd j] k ne by (simp add: load_file_def)
qed

subsection \<open>Failed loads and saves\<close>

lemma load_file_failed:
  "dialogs (load_file J file_name s) \<noteq> dialogs s \<Longrightarrow>
   tabs (load_file J file_name s) = tabs s \<and>
   currentIndex (load_file J file_name s) = currentIndex s"
  by (auto simp: load_file_def split: if_splits prod.splits sum.splits)

lemma save_file_as_failed:
  assumes d: "dialogs (save_file_as J file_name s) \<noteq> dialogs s"
  shows "tabs (save_file_as J file_name s) = tabs s \<and>
         currentIndex (save_file_as J file_name s) = currentIndex s"
proof -
  define r where
    "r = (if endswith file_name ''.esh'' then write_to_file J file_name True s
          else write_plain file_name s)"
  have k: "tabs (snd r) = tabs s" "currentIndex (snd r) = currentIndex s"
    "dialogs (snd r) = dialogs s"
    by (simp_all add: r_def write_to_file_keeps write_plain_keeps)
  show ?thesis
  proof (cases "file_name = []")
    case True
    with d show ?thesis by (simp add: save_file_as_def)
  next
    case False
    show ?thesis
    proof (cases r)
      case (Pair e s1)
      with k have k1: "tabs s1 = tabs s" "currentIndex s1 = currentIndex s"
        "dialogs s1 = dialogs s"
        by simp_all
      show ?thesis
      proof (cases e)
        case None
        with False Pair have "save_file_as J file_name s =
            showMessage (Text (''File saved: '' @ file_name)) 3000
              (setTabText (currentIndex s1) file_name s1)"
          by (simp add: save_file_as_def r_def)
        with d k1 show ?thesis by simp
      next
        case (Some x)
        with False Pair have "save_file_as J file_name s =
            critical ''Save Error'' (WithExn ''Failed to save file: '' x) s1"
          by (simp add: save_file_as_def r_def)
        with k1 show ?thesis by simp
      qed
    qed
  qed
qed

lemma save_file_failed:
  "fst (save_file J dialog_name s) \<noteq> None \<or>
     dialogs (snd (save_file J dialog_name s)) \<noteq> dialogs s \<Longrightarrow>
   tabs (snd (save_file J dialog_name s)) = tabs s \<and>
   currentIndex (snd (save_file J dialog_name s)) = currentIndex s"
  using save_file_as_failed [of J dialog_name s]
  by (auto simp: save_file_def Let_def write_to_file_keeps split: if_splits)

subsection \<open>The text an editor returns\<close>

lemma plain_text_clean:
  "CHR 0x0D \<notin> set (plain_text cs) \<and> CHR 0xA0 \<notin> set (plain_text cs)"
  by (induction cs rule: plain_text.induct) (auto simp: plain_char_def)

lemma plain_text_of_clean:
  "CHR 0x0D \<notin> set cs \<Longrightarrow> CHR 0xA0 \<notin> set cs \<Longrightarrow> plain_text cs = cs"
  by (induction cs rule: plain_text.induct) (auto simp: plain_char_def)

lemma plain_text_idem: "plain_text (plain_text cs) = plain_text cs"
  using plain_text_clean [of cs] by (simp add: plain_text_of_clean)

subsection \<open>Font size steps\<close>

lemma decrease_font_size_step:
  assumes "current_editor s = Some ed"
  shows "\<exists>ed'. current_editor (decrease_font_size s) = Some ed' \<and>
               currentFont ed' = currentFont ed"
  using assms
  by (auto simp: decrease_font_size_def current_editor_def update_current_editor_def
      setPointSize_def critical_def Let_def in_range_def split: if_splits sum.splits)

lemma decrease_font_size_steps:
  assumes "current_editor s = Some ed"
  shows "\<exists>ed'. current_editor ((decrease_font_size ^^ n) s) = Some ed' \<and>
               currentFont ed' = currentFont ed"
proof (induction n)
  case 0
  from assms show ?case by simp
next
  case (Suc n)
  then obtain ed1 where ed1: "current_editor ((decrease_font_size ^^ n) s) = Some ed1"
    "currentFont ed1 = currentFont ed"
    by blast
  from decrease_font_size_step [OF ed1(1)] ed1(2) show ?case
    by fastforce
qed

lemma increase_font_size_current_font:
  assumes "current_editor s = Some ed"
  shows "\<exists>ed'. current_editor (increase_font_size s) = Some ed' \<and>
               currentFont ed' = currentFont ed"
  using assms
  by (auto simp: increase_font_size_def current_editor_def update_current_editor_def
      setPointSize_def critical_def Let_def in_range_def split: if_splits sum.splits)

section \<open>The claims\<close>

subsection \<open>C1: structured round trip\<close>

text \<open>
  C1, as stated, fails: the scenario document, bold Mono 12, saved to \<open>note.esh\<close> and
  loaded again, comes back with its text but with the font of every new tab: Segoe UI,
  sized in pixels (point size \<open>-1\<close>) and not bold. \<open>load_file\<close> reads the \<open>text\<close> key
  only and hands it to \<open>add_new_tab\<close>.
\<close>

theorem esh_round_trip_formatting_counterexample:
  "map_option currentFont (current_editor (one_doc ''Untitled'' hello_editor)) =
     Some \<lparr>family = ''Mono'', pointSize = 12, bold = True, italic = False,
           underline = False\<rparr> \<and>
   fst (write_to_file py_json ''note.esh'' True (one_doc ''Untitled'' hello_editor)) = None \<and>
   map_option toPlainText
     (current_editor
        (load_file py_json ''note.esh''
           (snd (write_to_file py_json ''note.esh'' True (one_doc ''Untitled'' hello_editor))))) =
     Some ''Hello'' \<and>
   map_option currentFont
     (current_editor
        (load_file py_json ''note.esh''
           (snd (write_to_file py_json ''note.esh'' True (one_doc ''Untitled'' hello_editor))))) =
     Some \<lparr>family = ''Segoe UI'', pointSize = - 1, bold = False, italic = False,
           underline = False\<rparr>"
  by code_simp

text \<open>
  C1, amended: for every document and every writable and readable \<open>.esh\<close> path, when the
  JSON library reads back the dictionary it wrote, saving in the structured encoding
  succeeds and leaves in the file the dictionary of the document's text and of its five
  formatting fields; loading the file opens a new tab, titled with the path, whose
  content equals the document's; the formatting fields are not read back: the font of
  the new tab is the one every new tab has, Segoe UI sized in pixels (point size \<open>-1\<close>)
  and neither bold, italic nor underlined, whatever the document's was; no message box
  is shown.
\<close>

theorem esh_round_trip_content:
  assumes ed: "current_editor s = Some ed"
    and esh: "endswith file_name ''.esh''"
    and w: "file_name \<notin> write_denied (fs s)"
    and r: "file_name \<notin> read_denied (fs s)"
    and json: "loads J (dumps J (esh_data ed)) = Some (esh_data ed)"
  shows "fst (write_to_file J file_name True s) = None \<and>
         files (fs (snd (write_to_file J file_name True s))) file_name =
           Some (dumps J
             (JObj [(''text'', JStr (toPlainText ed)),
                    (''font'', JStr (family (currentFont ed))),
                    (''size'', JInt (pointSize (currentFont ed))),
                    (''bold'', JBool (bold (currentFont ed))),
                    (''italic'', JBool (italic (currentFont ed))),
                    (''underline'', JBool (underline (currentFont ed)))])) \<and>
         (let s' = load_file J file_name (snd (write_to_file J file_name True s)) in
            tabs s' = tabs s @ [\<lparr>tabText = file_name,
                widget = \<lparr>document_text = toPlainText ed,
                          currentFont = \<lparr>family = ''Segoe UI'', pointSize = - 1, bold = False, italic = False, underline = False\<rparr>,
                          requestedFont = QFont ''Segoe UI'' 10\<rparr>\<rparr>] \<and>
            map_option toPlainText (current_editor s') = Some (toPlainText ed) \<and>
            map_option currentFont (current_editor s') =
              Some \<lparr>family = ''Segoe UI'', pointSize = - 1, bold = False, italic = False, underline = False\<rparr> \<and>
            dialogs s' = dialogs s)"
proof -
  have ne: "file_name \<noteq> []" using esh by (rule endswith_nonempty)
  let ?fs1 = "f_write file_name (dumps J (esh_data ed)) (snd (open_write file_name (fs s)))"
  let ?fs2 = "?fs1\<lparr>io_log := io_log (snd (open_write file_name (fs s)))
                 @ [(file_name, ReadMode)]\<rparr>"
  have wr: "write_to_file J file_name True s = (None, s\<lparr>fs := ?fs1\<rparr>)"
    using ed ne w by (rule write_to_file_esh_ok)
  have fl: "files ?fs1 file_name = Some (dumps J (esh_data ed))"
    by (simp add: f_write_def)
  have rd: "open_read file_name ?fs1 = (Inr (dumps J (esh_data ed)), ?fs2)"
    using ne r by (rule open_read_written)
  have rc: "read_content J file_name ?fs1 = (Inr (JStr (toPlainText ed)), ?fs2)"
    using read_content_esh [OF esh rd, of J] json by (simp add: esh_data_def)
  have ld: "load_file J file_name (s\<lparr>fs := ?fs1\<rparr>) =
           showMessage (Text (''File loaded: '' @ file_name)) 3000
             (add_new_tab file_name (toPlainText ed) (s\<lparr>fs := ?fs2\<rparr>))"
    using load_file_ok [OF ne, of J "s\<lparr>fs := ?fs1\<rparr>"] rc by simp
  have ld1: "load_file J file_name (snd (write_to_file J file_name True s)) =
           showMessage (Text (''File loaded: '' @ file_name)) 3000
             (add_new_tab file_name (toPlainText ed) (s\<lparr>fs := ?fs2\<rparr>))"
    by (simp add: wr ld)
  have te: "toPlainText \<lparr>document_text = toPlainText ed, currentFont = stylesheet_font,
                          requestedFont = QFont ''Segoe UI'' 10\<rparr> = toPlainText ed"
    by (simp add: toPlainText_def plain_text_idem)
  have fl1: "files (fs (snd (write_to_file J file_name True s))) file_name =
           Some (dumps J (esh_data ed))"
    using fl by (simp add: wr)
  have sv: "fst (write_to_file J file_name True s) = None"
    by (simp add: wr)
  show ?thesis
    unfolding ld1 Let_def
    using fl1 te sv
    by (simp add: current_editor_add_new_tab stylesheet_font_def esh_data_def)
qed

theorem esh_round_trip_content_witness:
  "current_editor (one_doc ''Untitled'' hello_editor) = Some hello_editor \<and>
   endswith ''note.esh'' ''.esh'' \<and>
   ''note.esh'' \<notin> write_denied (fs (one_doc ''Untitled'' hello_editor)) \<and>
   ''note.esh'' \<notin> read_denied (fs (one_doc ''Untitled'' hello_editor)) \<and>
   loads py_json (dumps py_json (esh_data hello_editor)) = Some (esh_data hello_editor) \<and>
   fst (write_to_file py_json ''note.esh'' True (one_doc ''Untitled'' hello_editor)) = None \<and>
   files (fs (snd (write_to_file py_json ''note.esh'' True (one_doc ''Untitled'' hello_editor))))
     ''note.esh'' =
     Some (dumps py_json
       (JObj [(''text'', JStr ''Hello''), (''font'', JStr ''Mono''), (''size'', JInt 12),
              (''bold'', JBool True), (''italic'', JBool False),
              (''underline'', JBool False)])) \<and>
   map_option toPlainText
     (current_editor
        (load_file py_json ''note.esh''
           (snd (write_to_file py_json ''note.esh'' True (one_doc ''Untitled'' hello_editor))))) =
     Some ''Hello'' \<and>
   map_option currentFont
     (current_editor
        (load_file py_json ''note.esh''
           (snd (write_to_file py_json ''note.esh'' True (one_doc ''Untitled'' hello_editor))))) =
     Some \<lparr>family = ''Segoe UI'', pointSize = - 1, bold = False, italic = False, underline = False\<rparr>"
proof -
  have h1: "current_editor (one_doc ''Untitled'' hello_editor) = Some hello_editor"
    by (simp add: one_doc_def current_editor_def in_range_def)
  have h2: "endswith ''note.esh'' ''.esh''"
    by code_simp
  have h3: "''note.esh'' \<notin> write_denied (fs (one_doc ''Untitled'' hello_editor))"
    by (simp add: one_doc_def disk_def)
  have h4: "''note.esh'' \<notin> read_denied (fs (one_doc ''Untitled'' hello_editor))"
    by (simp add: one_doc_def disk_def)
  have h5: "loads py_json (dumps py_json (esh_data hello_editor)) = Some (esh_data hello_editor)"
    by code_simp
  have h6: "toPlainText hello_editor = ''Hello''"
    by code_simp
  have h7: "currentFont hello_editor =
      \<lparr>family = ''Mono'', pointSize = 12, bold = True, italic = False, underline = False\<rparr>"
    by (simp add: hello_editor_def)
  show ?thesis
    using esh_round_trip_content [OF h1 h2 h3 h4 h5] h1 h2 h3 h4 h5 h6 h7
    by (simp add: Let_def)
qed

subsection \<open>C2: the keys a structured file needs\<close>

text \<open>
  C2, as stated, fails: the file \<open>bare.esh\<close>, whose object has the \<open>text\<close> key and none
  of \<open>font\<close>, \<open>size\<close>, \<open>bold\<close>, \<open>italic\<close>, \<open>underline\<close>, loads into a new tab and no
  message box is shown. The only key \<open>load_file\<close> checks is \<open>text\<close>.
\<close>

theorem all_keys_required_counterexample:
  "loads py_json text_only = Some (JObj [(''text'', JStr ''hi'')]) \<and>
   tabs (load_file py_json ''bare.esh'' (one_doc ''Untitled'' hello_editor)) =
     [\<lparr>tabText = ''Untitled'', widget = hello_editor\<rparr>,
      \<lparr>tabText = ''bare.esh'',
       widget = \<lparr>document_text = ''hi'',
                 currentFont = \<lparr>family = ''Segoe UI'', pointSize = - 1, bold = False, italic = False, underline = False\<rparr>,
                 requestedFont = QFont ''Segoe UI'' 10\<rparr>\<rparr>] \<and>
   map_option toPlainText
     (current_editor (load_file py_json ''bare.esh'' (one_doc ''Untitled'' hello_editor))) =
     Some ''hi'' \<and>
   dialogs (load_file py_json ''bare.esh'' (one_doc ''Untitled'' hello_editor)) = []"
  by code_simp

text \<open>
  C2, amended: of the six keys only \<open>text\<close> is required on read. For every readable
  structured file that holds a JSON object: when the object has no \<open>text\<close> key the load
  fails (a Load Error box, no new tab); when its \<open>text\<close> is a string the load succeeds,
  with no message box, whether or not the keys \<open>font\<close>, \<open>size\<close>, \<open>bold\<close>, \<open>italic\<close>,
  \<open>underline\<close> are there: the new tab is given that string, its content is the string
  with every CR LF pair and every CR as a line feed and every no-break space as a space,
  and its font is the one every new tab has.
\<close>

theorem only_text_key_required:
  assumes esh: "endswith file_name ''.esh''"
    and r: "file_name \<notin> read_denied (fs s)"
    and f: "files (fs s) file_name = Some txt"
    and j: "loads J txt = Some (JObj kvs)"
  shows "(map_of kvs ''text'' = None \<longrightarrow>
            tabs (load_file J file_name s) = tabs s \<and>
            dialogs (load_file J file_name s) \<noteq> dialogs s) \<and>
         (\<forall>content. map_of kvs ''text'' = Some (JStr content) \<longrightarrow>
            tabs (load_file J file_name s) =
              tabs s @ [\<lparr>tabText = file_name,
                widget = \<lparr>document_text = content,
                          currentFont = \<lparr>family = ''Segoe UI'', pointSize = - 1, bold = False, italic = False, underline = False\<rparr>,
                          requestedFont = QFont ''Segoe UI'' 10\<rparr>\<rparr>] \<and>
            map_option toPlainText (current_editor (load_file J file_name s)) =
              Some (plain_text content) \<and>
            dialogs (load_file J file_name s) = dialogs s)"
proof (intro conjI allI impI)
  assume k: "map_of kvs ''text'' = None"
  show "tabs (load_file J file_name s) = tabs s"
    by (simp add: load_missing_text [OF esh r f j k])
  show "dialogs (load_file J file_name s) \<noteq> dialogs s"
    by (simp add: load_missing_text [OF esh r f j k])
next
  fix content
  assume k: "map_of kvs ''text'' = Some (JStr content)"
  show "tabs (load_file J file_name s) =
          tabs s @ [\<lparr>tabText = file_name,
            widget = \<lparr>document_text = content,
                      currentFont = \<lparr>family = ''Segoe UI'', pointSize = - 1, bold = False, italic = False, underline = False\<rparr>,
                      requestedFont = QFont ''Segoe UI'' 10\<rparr>\<rparr>]"
    by (simp add: load_with_text [OF esh r f j k] stylesheet_font_def)
  show "map_option toPlainText (current_editor (load_file J file_name s)) =
          Some (plain_text content)"
    by (simp add: load_with_text [OF esh r f j k] current_editor_add_new_tab toPlainText_def)
  show "dialogs (load_file J file_name s) = dialogs s"
    by (simp add: load_with_text [OF esh r f j k])
qed

theorem only_text_key_required_witness:
  "loads py_json no_text = Some (JObj [(''font'', JStr ''Mono''), (''size'', JInt 12)]) \<and>
   tabs (load_file py_json ''notext.esh'' (one_doc ''Untitled'' hello_editor)) =
     tabs (one_doc ''Untitled'' hello_editor) \<and>
   dialogs (load_file py_json ''notext.esh'' (one_doc ''Untitled'' hello_editor)) \<noteq>
     dialogs (one_doc ''Untitled'' hello_editor) \<and>
   loads py_json text_only = Some (JObj [(''text'', JStr ''hi'')]) \<and>
   map_option toPlainText
     (current_editor (load_file py_json ''bare.esh'' (one_doc ''Untitled'' hello_editor))) =
     Some ''hi'' \<and>
   dialogs (load_file py_json ''bare.esh'' (one_doc ''Untitled'' hello_editor)) =
     dialogs (one_doc ''Untitled'' hello_editor) \<and>
   loads py_json crlf_text =
     Some (JObj [(''text'', JStr [CHR ''a'', CHR 0x0D, CHR 0x0A, CHR ''b'', CHR 0xA0, CHR ''c''])]) \<and>
   map_option toPlainText
     (current_editor (load_file py_json ''crlf.esh'' (one_doc ''Untitled'' hello_editor))) =
     Some [CHR ''a'', CHR 0x0A, CHR ''b'', CHR '' '', CHR ''c''] \<and>
   dialogs (load_file py_json ''crlf.esh'' (one_doc ''Untitled'' hello_editor)) =
     dialogs (one_doc ''Untitled'' hello_editor)"
proof -
  let ?s = "one_doc ''Untitled'' hello_editor"
  have e1: "endswith ''notext.esh'' ''.esh''" and e2: "endswith ''bare.esh'' ''.esh''"
    and e3: "endswith ''crlf.esh'' ''.esh''"
    by code_simp+
  have r1: "''notext.esh'' \<notin> read_denied (fs ?s)" and r2: "''bare.esh'' \<notin> read_denied (fs ?s)"
    and r3: "''crlf.esh'' \<notin> read_denied (fs ?s)"
    by (simp_all add: one_doc_def disk_def)
  have f1: "files (fs ?s) ''notext.esh'' = Some no_text"
    and f2: "files (fs ?s) ''bare.esh'' = Some text_only"
    and f3: "files (fs ?s) ''crlf.esh'' = Some crlf_text"
    by (simp_all add: one_doc_def disk_def)
  have j1: "loads py_json no_text = Some (JObj [(''font'', JStr ''Mono''), (''size'', JInt 12)])"
    and j2: "loads py_json text_only = Some (JObj [(''text'', JStr ''hi'')])"
    and j3: "loads py_json crlf_text =
      Some (JObj [(''text'', JStr [CHR ''a'', CHR 0x0D, CHR 0x0A, CHR ''b'', CHR 0xA0, CHR ''c''])])"
    by code_simp+
  have p2: "plain_text ''hi'' = ''hi''"
    and p3: "plain_text [CHR ''a'', CHR 0x0D, CHR 0x0A, CHR ''b'', CHR 0xA0, CHR ''c''] =
      [CHR ''a'', CHR 0x0A, CHR ''b'', CHR '' '', CHR ''c'']"
    by code_simp+
  show ?thesis
    using only_text_key_required [OF e1 r1 f1 j1] only_text_key_required [OF e2 r2 f2 j2]
      only_text_key_required [OF e3 r3 f3 j3] j1 j2 j3 p2 p3
    by simp
qed

subsection \<open>C3: a structured file without the text key\<close>

text \<open>
  C3: for every readable structured file whose JSON object has no \<open>text\<close> key, the load
  fails with the format error the program raises for it,
  \<open>ValueError("Invalid file format: missing 'text' key.")\<close>, shown in a Load Error box;
  the state is otherwise the one before, but for the logged read: no tab is added and
  the current tab is the same.
\<close>

theorem load_without_text_key_fails:
  assumes "endswith file_name ''.esh''"
    and "file_name \<notin> read_denied (fs s)"
    and "files (fs s) file_name = Some txt"
    and "loads J txt = Some (JObj kvs)"
    and "map_of kvs ''text'' = None"
  shows "load_file J file_name s =
           s\<lparr>fs := (fs s)\<lparr>io_log := io_log (fs s) @ [(file_name, ReadMode)]\<rparr>,
             dialogs := dialogs s @
               [(''Load Error'',
                 WithExn ''Failed to load file: ''
                   (ValueError ''Invalid file format: missing 'text' key.''))]\<rparr> \<and>
         tabs (load_file J file_name s) = tabs s \<and>
         currentIndex (load_file J file_name s) = currentIndex s"
  by (simp add: load_missing_text [OF assms] critical_def)

theorem load_without_text_key_fails_witness:
  "endswith ''notext.esh'' ''.esh'' \<and>
   files (fs (one_doc ''Untitled'' hello_editor)) ''notext.esh'' = Some no_text \<and>
   loads py_json no_text = Some (JObj [(''font'', JStr ''Mono''), (''size'', JInt 12)]) \<and>
   tabs (load_file py_json ''notext.esh'' (one_doc ''Untitled'' hello_editor)) =
     [\<lparr>tabText = ''Untitled'', widget = hello_editor\<rparr>] \<and>
   dialogs (load_file py_json ''notext.esh'' (one_doc ''Untitled'' hello_editor)) =
     [(''Load Error'',
       WithExn ''Failed to load file: ''
         (ValueError ''Invalid file format: missing 'text' key.''))]"
proof -
  let ?s = "one_doc ''Untitled'' hello_editor"
  have e: "endswith ''notext.esh'' ''.esh''"
    by code_simp
  have r: "''notext.esh'' \<notin> read_denied (fs ?s)"
    by (simp add: one_doc_def disk_def)
  have f: "files (fs ?s) ''notext.esh'' = Some no_text"
    by (simp add: one_doc_def disk_def)
  have j: "loads py_json no_text = Some (JObj [(''font'', JStr ''Mono''), (''size'', JInt 12)])"
    by code_simp
  have k: "map_of [(''font'', JStr ''Mono''), (''size'', JInt 12)] ''text'' = None"
    by simp
  have t: "tabs ?s = [\<lparr>tabText = ''Untitled'', widget = hello_editor\<rparr>]" "dialogs ?s = []"
    by (simp_all add: one_doc_def)
  show ?thesis
    using load_without_text_key_fails [OF e r f j k] e f j t
    by simp
qed

subsection \<open>C4: autosave of an untitled document\<close>

text \<open>
  C4: when the current tab's title is \<open>Untitled\<close>, an autosave tick returns without an
  exception and leaves the whole state as it was, whether autosave is enabled or not: no
  file is opened (the log of \<open>open\<close> calls is part of the state), no file changes, no
  message box and no status message appear.
\<close>

theorem autosave_untitled_noop:
  assumes "tabText_at s (currentIndex s) = ''Untitled''"
  shows "autosave J s = (None, s)"
  using assms by (simp add: autosave_def)

theorem autosave_untitled_noop_witness:
  "tabText_at (one_doc ''Untitled'' hello_editor)
     (currentIndex (one_doc ''Untitled'' hello_editor)) = ''Untitled'' \<and>
   autosave_enabled (one_doc ''Untitled'' hello_editor) \<and>
   autosave py_json (one_doc ''Untitled'' hello_editor) =
     (None, one_doc ''Untitled'' hello_editor) \<and>
   autosave py_json ((one_doc ''Untitled'' hello_editor)\<lparr>autosave_enabled := False\<rparr>) =
     (None, (one_doc ''Untitled'' hello_editor)\<lparr>autosave_enabled := False\<rparr>)"
proof -
  have h1: "tabText_at (one_doc ''Untitled'' hello_editor)
     (currentIndex (one_doc ''Untitled'' hello_editor)) = ''Untitled''"
    by (simp add: one_doc_def tabText_at_def in_range_def)
  have h2: "tabText_at ((one_doc ''Untitled'' hello_editor)\<lparr>autosave_enabled := False\<rparr>)
     (currentIndex ((one_doc ''Untitled'' hello_editor)\<lparr>autosave_enabled := False\<rparr>)) =
     ''Untitled''"
    by (simp add: one_doc_def tabText_at_def in_range_def)
  have h3: "autosave_enabled (one_doc ''Untitled'' hello_editor)"
    by (simp add: one_doc_def)
  show ?thesis
    using autosave_untitled_noop [OF h1, of py_json] autosave_untitled_noop [OF h2, of py_json]
      h1 h3
    by simp
qed

subsection \<open>C5: the floor of the font size\<close>

text \<open>
  C5: from a current editor whose point size is at least 1, any number \<open>n\<close> of
  \<open>decrease_font_size\<close> calls leaves a current editor whose point size is at least 1
  (and no more than at the start); at point size 1 the call changes nothing at all.
\<close>

theorem decrease_font_size_floor:
  assumes "current_editor s = Some ed"
    and "1 \<le> pointSize (currentFont ed)"
  shows "(\<exists>ed'. current_editor ((decrease_font_size ^^ n) s) = Some ed' \<and>
                1 \<le> pointSize (currentFont ed') \<and>
                pointSize (currentFont ed') \<le> pointSize (currentFont ed)) \<and>
         (pointSize (currentFont ed) = 1 \<longrightarrow> decrease_font_size s = s)"
proof
  from decrease_font_size_steps [OF assms(1), of n]
  obtain ed' where "current_editor ((decrease_font_size ^^ n) s) = Some ed'"
    "currentFont ed' = currentFont ed"
    by blast
  with assms(2)
  show "\<exists>ed'. current_editor ((decrease_font_size ^^ n) s) = Some ed' \<and>
              1 \<le> pointSize (currentFont ed') \<and>
              pointSize (currentFont ed') \<le> pointSize (currentFont ed)"
    by simp
  show "pointSize (currentFont ed) = 1 \<longrightarrow> decrease_font_size s = s"
    using assms(1) by (simp add: decrease_font_size_def)
qed

theorem decrease_font_size_floor_witness:
  "current_editor (one_doc ''Untitled'' (hello_editor\<lparr>currentFont := QFont ''Mono'' 1\<rparr>)) =
     Some (hello_editor\<lparr>currentFont := QFont ''Mono'' 1\<rparr>) \<and>
   pointSize (currentFont (hello_editor\<lparr>currentFont := QFont ''Mono'' 1\<rparr>)) = 1 \<and>
   decrease_font_size (one_doc ''Untitled'' (hello_editor\<lparr>currentFont := QFont ''Mono'' 1\<rparr>)) =
     one_doc ''Untitled'' (hello_editor\<lparr>currentFont := QFont ''Mono'' 1\<rparr>) \<and>
   current_editor
     ((decrease_font_size ^^ 3)
        (one_doc ''Untitled'' (hello_editor\<lparr>currentFont := QFont ''Mono'' 1\<rparr>))) =
     Some (hello_editor\<lparr>currentFont := QFont ''Mono'' 1\<rparr>)"
proof -
  let ?ed = "hello_editor\<lparr>currentFont := QFont ''Mono'' 1\<rparr>"
  have h1: "current_editor (one_doc ''Untitled'' ?ed) = Some ?ed"
    by (simp add: one_doc_def current_editor_def in_range_def)
  have h2: "pointSize (currentFont ?ed) = 1"
    by (simp add: QFont_def)
  have h3: "1 \<le> pointSize (currentFont ?ed)"
    using h2 by simp
  have stays: "decrease_font_size (one_doc ''Untitled'' ?ed) = one_doc ''Untitled'' ?ed"
    using decrease_font_size_floor [OF h1 h3, of 3] h2 by blast
  have "(decrease_font_size ^^ 3) (one_doc ''Untitled'' ?ed) = one_doc ''Untitled'' ?ed"
    using stays by (simp add: numeral_3_eq_3)
  then show ?thesis
    using h1 h2 stays by simp
qed

subsection \<open>C6: plain round trip\<close>

text \<open>
  C6: for every document and every writable and readable path that does not end in
  \<open>.esh\<close>, saving in the plain encoding succeeds and leaves in the file the document's
  content and nothing else; loading the file opens a new tab, titled with the path, whose
  content equals the document's and whose font is the one every new tab has (the font of
  \<open>new_document\<close>: Segoe UI sized in pixels, point size \<open>-1\<close>, neither bold, italic nor
  underlined), whatever the document's was; no message box is shown. The same holds when
  the file is written by \<open>save_file_as\<close>.
\<close>

theorem plain_round_trip:
  assumes ed: "current_editor s = Some ed"
    and plain: "\<not> endswith file_name ''.esh''"
    and ne: "file_name \<noteq> []"
    and w: "file_name \<notin> write_denied (fs s)"
    and r: "file_name \<notin> read_denied (fs s)"
  shows "fst (write_to_file J file_name False s) = None \<and>
         files (fs (snd (write_to_file J file_name False s))) file_name =
           Some (toPlainText ed) \<and>
         (let s' = load_file J file_name (snd (write_to_file J file_name False s)) in
            tabs s' = tabs s @ [\<lparr>tabText = file_name,
                widget = \<lparr>document_text = toPlainText ed,
                          currentFont = \<lparr>family = ''Segoe UI'', pointSize = - 1, bold = False, italic = False, underline = False\<rparr>,
                          requestedFont = QFont ''Segoe UI'' 10\<rparr>\<rparr>] \<and>
            map_option toPlainText (current_editor s') = Some (toPlainText ed) \<and>
            map_option currentFont (current_editor s') =
              Some \<lparr>family = ''Segoe UI'', pointSize = - 1, bold = False, italic = False, underline = False\<rparr> \<and>
            map_option currentFont (current_editor s') =
              map_option currentFont (current_editor (new_document s)) \<and>
            dialogs s' = dialogs s) \<and>
         (let s' = load_file J file_name (save_file_as J file_name s) in
            map_option toPlainText (current_editor s') = Some (toPlainText ed) \<and>
            map_option currentFont (current_editor s') =
              Some \<lparr>family = ''Segoe UI'', pointSize = - 1, bold = False, italic = False, underline = False\<rparr> \<and>
            dialogs s' = dialogs s)"
proof -
  let ?fs1 = "f_write file_name (toPlainText ed) (snd (open_write file_name (fs s)))"
  let ?fs2 = "?fs1\<lparr>io_log := io_log (snd (open_write file_name (fs s)))
                 @ [(file_name, ReadMode)]\<rparr>"
  have wp: "write_plain file_name s = (None, s\<lparr>fs := ?fs1\<rparr>)"
    using ed ne w by (rule write_plain_ok)
  have wr: "write_to_file J file_name False s = (None, s\<lparr>fs := ?fs1\<rparr>)"
    using wp by (simp add: write_to_file_def)
  have fl: "files ?fs1 file_name = Some (toPlainText ed)"
    by (simp add: f_write_def)
  have rd: "open_read file_name ?fs1 = (Inr (toPlainText ed), ?fs2)"
    using ne r by (rule open_read_written)
  have rc: "read_content J file_name ?fs1 = (Inr (JStr (toPlainText ed)), ?fs2)"
    using plain rd by (rule read_content_plain)
  have ld: "load_file J file_name (s\<lparr>fs := ?fs1\<rparr>) =
           showMessage (Text (''File loaded: '' @ file_name)) 3000
             (add_new_tab file_name (toPlainText ed) (s\<lparr>fs := ?fs2\<rparr>))"
    using load_file_ok [OF ne, of J "s\<lparr>fs := ?fs1\<rparr>"] rc by simp
  have ld1: "load_file J file_name (snd (write_to_file J file_name False s)) =
           showMessage (Text (''File loaded: '' @ file_name)) 3000
             (add_new_tab file_name (toPlainText ed) (s\<lparr>fs := ?fs2\<rparr>))"
    by (simp add: wr ld)
  have te: "toPlainText \<lparr>document_text = toPlainText ed, currentFont = stylesheet_font,
                          requestedFont = QFont ''Segoe UI'' 10\<rparr> = toPlainText ed"
    by (simp add: toPlainText_def plain_text_idem)
  have fl1: "files (fs (snd (write_to_file J file_name False s))) file_name =
           Some (toPlainText ed)"
    using fl by (simp add: wr)
  have sv: "fst (write_to_file J file_name False s) = None"
    by (simp add: wr)
  let ?t = "showMessage (Text (''File saved: '' @ file_name)) 3000
              (setTabText (currentIndex s) file_name (s\<lparr>fs := ?fs1\<rparr>))"
  have sa: "save_file_as J file_name s = ?t"
    using ne plain wp by (simp add: save_file_as_def)
  have "read_content J file_name (fs ?t) = (Inr (JStr (toPlainText ed)), ?fs2)"
    using rc by simp
  from load_file_ok [OF ne this]
  have ld2: "load_file J file_name (save_file_as J file_name s) =
           showMessage (Text (''File loaded: '' @ file_name)) 3000
             (add_new_tab file_name (toPlainText ed) (?t\<lparr>fs := ?fs2\<rparr>))"
    by (simp only: sa)
  have d2: "dialogs (?t\<lparr>fs := ?fs2\<rparr>) = dialogs s"
    by simp
  show ?thesis
    unfolding ld1 ld2 Let_def
    using fl1 te sv d2
    by (simp add: current_editor_add_new_tab stylesheet_font_def new_document_def)
qed

theorem plain_round_trip_witness:
  "current_editor (one_doc ''Untitled'' hello_editor) = Some hello_editor \<and>
   \<not> endswith ''note.txt'' ''.esh'' \<and>
   ''note.txt'' \<notin> write_denied (fs (one_doc ''Untitled'' hello_editor)) \<and>
   ''note.txt'' \<notin> read_denied (fs (one_doc ''Untitled'' hello_editor)) \<and>
   fst (write_to_file py_json ''note.txt'' False (one_doc ''Untitled'' hello_editor)) = None \<and>
   files (fs (snd (write_to_file py_json ''note.txt'' False (one_doc ''Untitled'' hello_editor))))
     ''note.txt'' = Some ''Hello'' \<and>
   map_option toPlainText
     (current_editor
        (load_file py_json ''note.txt''
           (snd (write_to_file py_json ''note.txt'' False (one_doc ''Untitled'' hello_editor))))) =
     Some ''Hello'' \<and>
   map_option currentFont
     (current_editor
        (load_file py_json ''note.txt''
           (snd (write_to_file py_json ''note.txt'' False (one_doc ''Untitled'' hello_editor))))) =
     Some \<lparr>family = ''Segoe UI'', pointSize = - 1, bold = False, italic = False, underline = False\<rparr> \<and>
   map_option toPlainText
     (current_editor
        (load_file py_json ''note.txt''
           (save_file_as py_json ''note.txt'' (one_doc ''Untitled'' hello_editor)))) =
     Some ''Hello''"
proof -
  have h1: "current_editor (one_doc ''Untitled'' hello_editor) = Some hello_editor"
    by (simp add: one_doc_def current_editor_def in_range_def)
  have h2: "\<not> endswith ''note.txt'' ''.esh''"
    by code_simp
  have h3: "''note.txt'' \<noteq> []"
    by simp
  have h4: "''note.txt'' \<notin> write_denied (fs (one_doc ''Untitled'' hello_editor))"
    by (simp add: one_doc_def disk_def)
  have h5: "''note.txt'' \<notin> read_denied (fs (one_doc ''Untitled'' hello_editor))"
    by (simp add: one_doc_def disk_def)
  have h6: "toPlainText hello_editor = ''Hello''"
    by code_simp
  note rt = plain_round_trip [OF h1 h2 h3 h4 h5, of py_json, unfolded Let_def h6]
  show ?thesis
    using rt h1 h2 h4 h5 by blast
qed

subsection \<open>C7: a failed autosave\<close>

text \<open>
  C7: with autosave enabled and a current tab whose title is not \<open>Untitled\<close>, when the
  file cannot be opened for writing the autosave tick returns without an exception,
  shows no message box, leaves the tabs, the current tab and the files as they were, and
  adds one status message, \<open>Autosave failed\<close> with the error, for 2000 ms.
\<close>

theorem autosave_failure_is_status_only:
  assumes en: "autosave_enabled s"
    and title: "tabText_at s (currentIndex s) = title"
    and titled: "title \<noteq> ''Untitled''"
    and fails: "fst (open_write title (fs s)) = Some e"
  shows "fst (autosave J s) = None \<and>
         dialogs (snd (autosave J s)) = dialogs s \<and>
         tabs (snd (autosave J s)) = tabs s \<and>
         currentIndex (snd (autosave J s)) = currentIndex s \<and>
         files (fs (snd (autosave J s))) = files (fs s) \<and>
         status_log (snd (autosave J s)) =
           status_log s @ [(WithExn ''Autosave failed: '' e, 2000)]"
proof -
  obtain fs1 where ow: "open_write title (fs s) = (Some e, fs1)"
    using fails by (cases "open_write title (fs s)") simp
  then have f: "files fs1 = files (fs s)"
    by (auto simp: open_write_def Let_def split: if_splits)
  have plain: "write_plain title s = (Some e, s\<lparr>fs := fs1\<rparr>)"
    using ow by (simp add: write_plain_def)
  have esh: "write_to_file J title True s = (Some e, s\<lparr>fs := fs1\<rparr>)"
    if "endswith title ''.esh''"
  proof -
    have "title \<noteq> []" using that by (rule endswith_nonempty)
    then have "current_editor s \<noteq> None"
      using title by (auto simp: tabText_at_def current_editor_def split: if_splits)
    then show ?thesis using ow by (auto simp: write_to_file_def)
  qed
  show ?thesis
  proof (cases "endswith title ''.esh''")
    case True
    with esh en title titled f show ?thesis by (simp add: autosave_def showMessage_def)
  next
    case False
    with plain en title titled f show ?thesis by (simp add: autosave_def showMessage_def)
  qed
qed

theorem autosave_failure_is_status_only_witness:
  "autosave_enabled (one_doc ''/readonly/note.esh'' hello_editor) \<and>
   tabText_at (one_doc ''/readonly/note.esh'' hello_editor)
     (currentIndex (one_doc ''/readonly/note.esh'' hello_editor)) = ''/readonly/note.esh'' \<and>
   ''/readonly/note.esh'' \<noteq> ''Untitled'' \<and>
   fst (open_write ''/readonly/note.esh'' (fs (one_doc ''/readonly/note.esh'' hello_editor))) =
     Some OSError \<and>
   fst (autosave py_json (one_doc ''/readonly/note.esh'' hello_editor)) = None \<and>
   dialogs (snd (autosave py_json (one_doc ''/readonly/note.esh'' hello_editor))) = [] \<and>
   status_log (snd (autosave py_json (one_doc ''/readonly/note.esh'' hello_editor))) =
     [(WithExn ''Autosave failed: '' OSError, 2000)]"
proof -
  let ?s = "one_doc ''/readonly/note.esh'' hello_editor"
  have h1: "autosave_enabled ?s"
    by (simp add: one_doc_def)
  have h2: "tabText_at ?s (currentIndex ?s) = ''/readonly/note.esh''"
    by (simp add: one_doc_def tabText_at_def in_range_def)
  have h3: "''/readonly/note.esh'' \<noteq> ''Untitled''"
    by simp
  have h4: "fst (open_write ''/readonly/note.esh'' (fs ?s)) = Some OSError"
    by (simp add: one_doc_def disk_def open_write_def Let_def)
  have h5: "dialogs ?s = []" "status_log ?s = []"
    by (simp_all add: one_doc_def)
  show ?thesis
    using autosave_failure_is_status_only [OF h1 h2 h3 h4, of py_json] h1 h2 h4 h5
    by simp
qed

subsection \<open>C8: failed loads and saves leave the documents alone\<close>

text \<open>
  C8: a load or a save-as has failed when it shows its message box, a save when it shows
  one or when \<open>write_to_file\<close> raises. In each case the tabs, with their titles and
  editors, and the current tab are those before the call: a failed load adds no tab, a
  failed save-as or save leaves the title as it was.
\<close>

theorem failed_load_or_save_keeps_tabs:
  "(dialogs (load_file J file_name s) \<noteq> dialogs s \<longrightarrow>
      tabs (load_file J file_name s) = tabs s \<and>
      currentIndex (load_file J file_name s) = currentIndex s) \<and>
   (dialogs (save_file_as J file_name s) \<noteq> dialogs s \<longrightarrow>
      tabs (save_file_as J file_name s) = tabs s \<and>
      currentIndex (save_file_as J file_name s) = currentIndex s) \<and>
   (fst (save_file J file_name s) \<noteq> None \<or>
      dialogs (snd (save_file J file_name s)) \<noteq> dialogs s \<longrightarrow>
      tabs (snd (save_file J file_name s)) = tabs s \<and>
      currentIndex (snd (save_file J file_name s)) = currentIndex s)"
  using load_file_failed [of J file_name s] save_file_as_failed [of J file_name s]
    save_file_failed [of J file_name s]
  by blast

theorem failed_load_or_save_keeps_tabs_witness:
  "dialogs (load_file py_json ''missing.txt'' (one_doc ''Untitled'' hello_editor)) \<noteq>
     dialogs (one_doc ''Untitled'' hello_editor) \<and>
   tabs (load_file py_json ''missing.txt'' (one_doc ''Untitled'' hello_editor)) =
     tabs (one_doc ''Untitled'' hello_editor) \<and>
   dialogs (save_file_as py_json ''/readonly/note.txt'' (one_doc ''Untitled'' hello_editor)) \<noteq>
     dialogs (one_doc ''Untitled'' hello_editor) \<and>
   tabs (save_file_as py_json ''/readonly/note.txt'' (one_doc ''Untitled'' hello_editor)) =
     tabs (one_doc ''Untitled'' hello_editor) \<and>
   fst (save_file py_json [] (one_doc ''/readonly/note.esh'' hello_editor)) \<noteq> None \<and>
   tabs (snd (save_file py_json [] (one_doc ''/readonly/note.esh'' hello_editor))) =
     tabs (one_doc ''/readonly/note.esh'' hello_editor)"
proof -
  have h1: "dialogs (load_file py_json ''missing.txt'' (one_doc ''Untitled'' hello_editor)) \<noteq>
     dialogs (one_doc ''Untitled'' hello_editor)"
    by code_simp
  have h2: "dialogs (save_file_as py_json ''/readonly/note.txt''
       (one_doc ''Untitled'' hello_editor)) \<noteq> dialogs (one_doc ''Untitled'' hello_editor)"
    by code_simp
  have h3: "fst (save_file py_json [] (one_doc ''/readonly/note.esh'' hello_editor)) \<noteq> None"
    by code_simp
  show ?thesis
    using failed_load_or_save_keeps_tabs
            [of py_json "''missing.txt''" "one_doc ''Untitled'' hello_editor"]
          failed_load_or_save_keeps_tabs
            [of py_json "''/readonly/note.txt''" "one_doc ''Untitled'' hello_editor"]
          failed_load_or_save_keeps_tabs
            [of py_json "[]" "one_doc ''/readonly/note.esh'' hello_editor"]
          h1 h2 h3
    by blast
qed

subsection \<open>C9: a tab is always open\<close>

text \<open>
  C9: after \<open>close_tab\<close>, whatever the index and the state, at least one tab is open; and
  closing the only tab leaves exactly one tab, titled \<open>Untitled\<close>, empty, as
  \<open>add_new_tab\<close> makes it, and current.
\<close>

theorem close_tab_keeps_a_tab:
  "1 \<le> length (tabs (close_tab index s)) \<and>
   (length (tabs s) = 1 \<and> index = 0 \<longrightarrow>
      tabs (close_tab index s) =
        [\<lparr>tabText = ''Untitled'',
          widget = \<lparr>document_text = [], currentFont = stylesheet_font,
                    requestedFont = QFont ''Segoe UI'' 10\<rparr>\<rparr>] \<and>
      currentIndex (close_tab index s) = 0)"
  by (auto simp: close_tab_def removeTab_def add_new_tab_def in_range_def Let_def Suc_le_eq)

theorem close_tab_keeps_a_tab_witness:
  "length (tabs (one_doc ''note.esh'' hello_editor)) = 1 \<and>
   1 \<le> length (tabs (close_tab 0 (one_doc ''note.esh'' hello_editor))) \<and>
   tabs (close_tab 0 (one_doc ''note.esh'' hello_editor)) =
     [\<lparr>tabText = ''Untitled'',
       widget = \<lparr>document_text = [], currentFont = stylesheet_font,
                 requestedFont = QFont ''Segoe UI'' 10\<rparr>\<rparr>] \<and>
   currentIndex (close_tab 0 (one_doc ''note.esh'' hello_editor)) = 0"
proof -
  have h: "length (tabs (one_doc ''note.esh'' hello_editor)) = 1"
    by (simp add: one_doc_def)
  show ?thesis
    using close_tab_keeps_a_tab [of 0 "one_doc ''note.esh'' hello_editor"] h
    by simp
qed

subsection \<open>C10: a point size that is not positive\<close>

text \<open>
  C10 is what the two handlers set out to do and do not achieve. In the window as
  \<open>__init__\<close> leaves it the current font has the point size \<open>-1\<close>. Each handler
  replaces it by the default 10, steps it, and passes a font of point size 11, or 9, to
  \<open>editor.setFont\<close>; the font \<open>currentFont()\<close> returns still has the point size
  \<open>-1\<close> afterwards, and a second call computes the same 11, or 9, again. The toggle
  \<open>make_bold\<close> stores its font with \<open>setCurrentFont\<close>, and \<open>currentFont()\<close> returns
  it.
\<close>

theorem font_size_step_leaves_current_font:
  "map_option (pointSize \<circ> currentFont) (current_editor initial_window) = Some (- 1) \<and>
   map_option (pointSize \<circ> currentFont)
     (current_editor (increase_font_size initial_window)) = Some (- 1) \<and>
   map_option (pointSize \<circ> requestedFont)
     (current_editor (increase_font_size initial_window)) = Some 11 \<and>
   map_option (pointSize \<circ> requestedFont)
     (current_editor (increase_font_size (increase_font_size initial_window))) = Some 11 \<and>
   map_option (pointSize \<circ> currentFont)
     (current_editor (decrease_font_size initial_window)) = Some (- 1) \<and>
   map_option (pointSize \<circ> requestedFont)
     (current_editor (decrease_font_size initial_window)) = Some 9 \<and>
   map_option (bold \<circ> currentFont) (current_editor initial_window) = Some False \<and>
   map_option (bold \<circ> currentFont) (current_editor (make_bold initial_window)) = Some True"
  by code_simp

end
